theory Spec2Isabelle
  imports Main "HOL-Library.Sublist" "HOL-Library.AList"
begin

section \<open>Python values and string helpers\<close>

text \<open>
  A Python \<open>str\<close> is modelled as a \<open>string\<close>, one \<open>char\<close> per character.  The values
  that occur in a document's metadata dictionary are strings and integers
  (\<open>chunk_index\<close> is an \<open>int\<close>, every other value written by the application is a \<open>str\<close>).
  \<open>truthy\<close> is Python's truth test of such a value, \<open>py_str\<close> is what an f-string
  prints for it.
\<close>

datatype mval = MStr string | MInt int

fun truthy :: "mval \<Rightarrow> bool" where
  "truthy (MStr s) = (s \<noteq> [])"
| "truthy (MInt i) = (i \<noteq> 0)"

fun str_nat :: "nat \<Rightarrow> string" where
  "str_nat n =
     (if n < 10 then [char_of (48 + n)]
      else str_nat (n div 10) @ [char_of (48 + n mod 10)])"

declare str_nat.simps [simp del]

definition str_int :: "int \<Rightarrow> string" where
  "str_int i = (if i < 0 then CHR ''-'' # str_nat (nat (- i)) else str_nat (nat i))"

fun py_str :: "mval \<Rightarrow> string" where
  "py_str (MStr s) = s"
| "py_str (MInt i) = str_int i"

text \<open>\<open>sep.join(parts)\<close>.\<close>

fun join :: "string \<Rightarrow> string list \<Rightarrow> string" where
  "join sep [] = []"
| "join sep [p] = p"
| "join sep (p # q # ps) = p @ sep @ join sep (q # ps)"

section \<open>Documents\<close>

text \<open>
  A LangChain \<open>Document\<close>: the chunk text and a metadata dictionary.  The dictionary is
  an association list in insertion order; \<open>md_get doc key dflt\<close> is
  \<open>doc.metadata.get(key, dflt)\<close>.
\<close>

record document =
  page_content :: string
  metadata :: "(string \<times> mval) list"

definition md_get :: "document \<Rightarrow> string \<Rightarrow> mval \<Rightarrow> mval" where
  "md_get doc key dflt = (case map_of (metadata doc) key of None \<Rightarrow> dflt | Some v \<Rightarrow> v)"

section \<open>config.py and the outside world\<close>

text \<open>
  The fields of \<open>Settings\<close> that the modelled functions read.  The values can be
  overridden from the process environment, so the settings are a parameter;
  \<open>default_settings\<close> are the defaults written in \<open>config.py\<close>.
\<close>

record settings =
  EMBEDDING_MODEL :: string
  OLLAMA_MODEL :: string
  OLLAMA_BASE_URL :: string
  COLLECTION_NAME :: string
  CHUNK_SIZE :: int
  CHUNK_OVERLAP :: int
  TOP_K_RESULTS :: int

definition default_settings :: settings where
  "default_settings =
     \<lparr>EMBEDDING_MODEL = ''all-MiniLM-L6-v2'',
      OLLAMA_MODEL = ''llama3.2'',
      OLLAMA_BASE_URL = ''http://localhost:11434'',
      COLLECTION_NAME = ''news_articles'',
      CHUNK_SIZE = 1000,
      CHUNK_OVERLAP = 200,
      TOP_K_RESULTS = 5\<rparr>"

text \<open>
  The calls into third-party libraries that touch the embedding model or the database.
  Each of them can raise; which ones do during an operation is part of the environment
  (\<open>faults\<close> gives the exception's message for a call that raises).
\<close>

datatype extcall =
    LoadEmbeddingModel   \<comment> \<open>\<open>HuggingFaceEmbeddings(...)\<close>\<close>
  | OpenClient           \<comment> \<open>\<open>chromadb.PersistentClient(...)\<close>\<close>
  | OpenCollection       \<comment> \<open>\<open>Chroma(collection_name=..., client=...)\<close>\<close>
  | CollectionGet        \<comment> \<open>\<open>vector_store.get()\<close>\<close>
  | AddDocuments         \<comment> \<open>\<open>vector_store.add_documents(...)\<close>\<close>
  | SimilaritySearch     \<comment> \<open>\<open>vector_store.similarity_search(...)\<close>\<close>
  | GetCollection        \<comment> \<open>\<open>client.get_collection(...)\<close>\<close>
  | CollectionCount      \<comment> \<open>\<open>collection.count()\<close>\<close>
  | DeleteCollection     \<comment> \<open>\<open>client.delete_collection(...)\<close>\<close>

datatype exn =
    External extcall string
  | KeyError string
  | AttributeError string

fun exn_str :: "exn \<Rightarrow> string" where
  "exn_str (External c msg) = msg"
| "exn_str (KeyError k) = [CHR 0x27] @ k @ [CHR 0x27]"
| "exn_str (AttributeError a) = a"

text \<open>The outcome of \<open>requests.get(OLLAMA_BASE_URL + "/api/tags", timeout=5)\<close> followed by
  \<open>response.json()\<close>: a connection error, another exception, or a status code with the
  \<open>name\<close> of every listed model (the empty string where the key is missing).\<close>

datatype probe = ConnectionError | ProbeError string | Response int "string list"

text \<open>
  The environment of one operation:
  \<^item> \<open>splitter size overlap separators\<close> is
    \<open>RecursiveCharacterTextSplitter(chunk_size, chunk_overlap, len, separators).split_text\<close>;
  \<^item> \<open>ranking query k entries\<close> is the order in which the embedding distance ranks the
    positions of the collection's entries (embeddings are floating-point vectors and are
    not modelled);
  \<^item> \<open>md5_hexdigest\<close> is \<open>hashlib.md5(url.encode()).hexdigest()\<close>;
  \<^item> \<open>llm_invoke prompt\<close> is \<open>get_llm().invoke(prompt)\<close>, \<open>Inl\<close> carrying \<open>str(e)\<close> of the
    exception it raised.
\<close>

record env =
  cfg :: settings
  faults :: "extcall \<Rightarrow> string option"
  splitter :: "int \<Rightarrow> int \<Rightarrow> string list \<Rightarrow> string \<Rightarrow> string list"
  ranking :: "string \<Rightarrow> int \<Rightarrow> (string \<times> document) list \<Rightarrow> nat list"
  md5_hexdigest :: "string \<Rightarrow> string"
  ollama_tags :: probe
  llm_invoke :: "string \<Rightarrow> string + string"

text \<open>
  The mutable state: the three module-level singletons and the persisted collection
  named \<open>COLLECTION_NAME\<close>.  A collection has an identity (a number, fresh at every
  creation) and its entries, keyed by chunk id; a cached \<open>Chroma\<close> wrapper refers to
  the collection by that identity, so a wrapper of a deleted collection is stale.
\<close>

record world =
  embedding_model :: bool          \<comment> \<open>\<open>_embedding_model is not None\<close>\<close>
  chroma_client :: bool            \<comment> \<open>\<open>_chroma_client is not None\<close>\<close>
  vector_store :: "nat option"     \<comment> \<open>\<open>_vector_store\<close>\<close>
  stored :: "(nat \<times> (string \<times> document) list) option"
  next_id :: nat

definition missing :: "extcall \<Rightarrow> exn" where
  "missing c = External c ''Collection does not exist''"

text \<open>
  The database operations behind the library calls.  What is taken from the libraries
  (\<open>chromadb\<close>, \<open>langchain_chroma\<close>), whose code is not part of the application:
  \<^item> constructing the \<open>Chroma\<close> wrapper gets the named collection, creating it empty
    when it does not exist;
  \<^item> \<open>get_collection\<close> and \<open>delete_collection\<close> raise when the collection does not
    exist;
  \<^item> \<open>add_documents\<close> with ids is an upsert: an entry with a known id is replaced, an
    entry with a new id is added; a batch that names the same id twice is refused with
    \<open>DuplicateIDError\<close> and nothing is stored;
  \<^item> an operation through a wrapper whose collection has been deleted raises;
  \<^item> \<open>similarity_search\<close> returns at most \<open>k\<close> of the stored documents.
  Besides, each call raises whenever the environment says so.
\<close>

definition open_collection :: "env \<Rightarrow> world \<Rightarrow> (exn + nat) \<times> world" where
  \<comment> \<open>\<open>Chroma(...)\<close>: get the collection or create it empty\<close>
  "open_collection env w =
     (case faults env OpenCollection of
        Some msg \<Rightarrow> (Inl (External OpenCollection msg), w)
      | None \<Rightarrow>
          (case stored w of
             Some (h, es) \<Rightarrow> (Inr h, w)
           | None \<Rightarrow> (Inr (next_id w),
                       w\<lparr>stored := Some (next_id w, []), next_id := Suc (next_id w)\<rparr>)))"

definition entries_of :: "world \<Rightarrow> nat \<Rightarrow> (string \<times> document) list option" where
  "entries_of w h =
     (case stored w of
        Some (h', es) \<Rightarrow> if h' = h then Some es else None
      | None \<Rightarrow> None)"





definition similarity_search :: "env \<Rightarrow> world \<Rightarrow> nat \<Rightarrow> string \<Rightarrow> int
    \<Rightarrow> exn + document list" where
  \<comment> \<open>\<open>vector_store.similarity_search(query, k=k)\<close>: at most \<open>k\<close> entries, as ranked\<close>
  "similarity_search env w h query k =
     (case faults env SimilaritySearch of
        Some msg \<Rightarrow> Inl (External SimilaritySearch msg)
      | None \<Rightarrow>
          (case entries_of w h of
             None \<Rightarrow> Inl (missing SimilaritySearch)
           | Some es \<Rightarrow>
               Inr (map (\<lambda>i. snd (es ! i))
                      (take (nat k) (filter (\<lambda>i. i < length es) (ranking env query k es))))))"

definition get_collection :: "env \<Rightarrow> world \<Rightarrow> exn + nat" where
  \<comment> \<open>\<open>client.get_collection(name)\<close>\<close>
  "get_collection env w =
     (case faults env GetCollection of
        Some msg \<Rightarrow> Inl (External GetCollection msg)
      | None \<Rightarrow>
          (case stored w of
             None \<Rightarrow> Inl (missing GetCollection)
           | Some (h, es) \<Rightarrow> Inr h))"

definition collection_count :: "env \<Rightarrow> world \<Rightarrow> nat \<Rightarrow> exn + nat" where
  \<comment> \<open>\<open>collection.count()\<close>\<close>
  "collection_count env w h =
     (case faults env CollectionCount of
        Some msg \<Rightarrow> Inl (External CollectionCount msg)
      | None \<Rightarrow>
          (case entries_of w h of
             None \<Rightarrow> Inl (missing CollectionCount)
           | Some es \<Rightarrow> Inr (length es)))"

definition delete_collection :: "env \<Rightarrow> world \<Rightarrow> (exn + unit) \<times> world" where
  \<comment> \<open>\<open>client.delete_collection(name)\<close>\<close>
  "delete_collection env w =
     (case faults env DeleteCollection of
        Some msg \<Rightarrow> (Inl (External DeleteCollection msg), w)
      | None \<Rightarrow>
          (case stored w of
             None \<Rightarrow> (Inl (missing DeleteCollection), w)
           | Some c \<Rightarrow> (Inr (), w\<lparr>stored := None\<rparr>)))"

section \<open>news\_fetcher.py\<close>

text \<open>
  A \<open>datetime\<close> is represented by the text its \<open>isoformat()\<close> returns; every
  \<open>datetime\<close> object is truthy.
\<close>

datatype datetime = DateTime string

fun isoformat :: "datetime \<Rightarrow> string" where
  "isoformat (DateTime s) = s"

record article =
  a_id :: string
  a_title :: string
  a_content :: string
  a_summary :: string
  a_source :: string
  a_url :: string
  a_published_date :: "datetime option"

text \<open>
  A feed entry as \<open>fetch_feed\<close> reads it; \<open>None\<close> is an attribute the entry does not
  have.  \<open>e_content\<close> is the list of dictionaries \<open>entry.content\<close>;
  \<open>e_published_parsed\<close> and \<open>e_updated_parsed\<close> hold the \<open>datetime\<close> that
  \<open>datetime.fromtimestamp(mktime(...))\<close> makes of a present, truthy time tuple (the
  conversion is taken to succeed).
\<close>

record entry =
  e_content :: "(string \<times> string) list list option"
  e_description :: "string option"
  e_summary :: "string option"
  e_title :: "string option"
  e_link :: "string option"
  e_published_parsed :: "datetime option"
  e_updated_parsed :: "datetime option"

definition generate_article_id :: "env \<Rightarrow> string \<Rightarrow> string" where
  "generate_article_id env url = md5_hexdigest env url"

definition parse_rss_date :: "entry \<Rightarrow> datetime option" where
  "parse_rss_date e =
     (case e_published_parsed e of
        Some d \<Rightarrow> Some d
      | None \<Rightarrow> (case e_updated_parsed e of Some d \<Rightarrow> Some d | None \<Rightarrow> None))"

text \<open>The \<open>if / elif / elif\<close> chain that extracts \<open>content\<close> from an entry.\<close>

definition extract_content :: "entry \<Rightarrow> string" where
  "extract_content e =
     (case e_content e of
        Some (c # cs) \<Rightarrow> (case map_of c ''value'' of None \<Rightarrow> [] | Some v \<Rightarrow> v)
      | _ \<Rightarrow>
          (case e_description e of
             Some d \<Rightarrow> d
           | None \<Rightarrow> (case e_summary e of Some s \<Rightarrow> s | None \<Rightarrow> [])))"

text \<open>\<open>getattr(entry, 'summary', content[:500] if content else "")\<close>.\<close>

definition entry_summary :: "entry \<Rightarrow> string \<Rightarrow> string" where
  "entry_summary e content =
     (case e_summary e of
        Some s \<Rightarrow> s
      | None \<Rightarrow> (if content \<noteq> [] then take 500 content else []))"

text \<open>
  The body of the loop over \<open>feed.entries\<close>: \<open>entry.link\<close> and \<open>entry.title\<close> raise
  \<open>AttributeError\<close> when the entry lacks them.
\<close>

definition entry_article :: "env \<Rightarrow> string \<Rightarrow> entry \<Rightarrow> exn + article" where
  "entry_article env source_name e =
     (let content = extract_content e;
          summary = entry_summary e content
      in case e_link e of
           None \<Rightarrow> Inl (AttributeError ''link'')
         | Some link \<Rightarrow>
             (case e_title e of
                None \<Rightarrow> Inl (AttributeError ''title'')
              | Some title \<Rightarrow>
                  Inr \<lparr>a_id = generate_article_id env link,
                       a_title = title,
                       a_content = (if content \<noteq> [] then content else summary),
                       a_summary = summary,
                       a_source = source_name,
                       a_url = link,
                       a_published_date = parse_rss_date e\<rparr>))"

text \<open>
  \<open>fetch_feed\<close>, given what \<open>feedparser.parse(feed_url)\<close> returned or raised.  The whole
  loop is inside one \<open>try\<close>: an exception ends it and the articles built so far are
  returned.
\<close>

fun fetch_loop :: "env \<Rightarrow> string \<Rightarrow> entry list \<Rightarrow> article list \<Rightarrow> article list" where
  "fetch_loop env source_name [] articles = articles"
| "fetch_loop env source_name (e # es) articles =
     (case entry_article env source_name e of
        Inl ex \<Rightarrow> articles
      | Inr a \<Rightarrow> fetch_loop env source_name es (articles @ [a]))"

definition fetch_feed :: "env \<Rightarrow> string \<Rightarrow> exn + entry list \<Rightarrow> article list" where
  "fetch_feed env source_name parsed =
     (case parsed of
        Inl ex \<Rightarrow> []
      | Inr entries \<Rightarrow> fetch_loop env source_name entries [])"

section \<open>embeddings.py and vector\_store.py\<close>

definition get_embedding_model :: "env \<Rightarrow> world \<Rightarrow> (exn + unit) \<times> world" where
  "get_embedding_model env w =
     (if embedding_model w then (Inr (), w)
      else (case faults env LoadEmbeddingModel of
              Some msg \<Rightarrow> (Inl (External LoadEmbeddingModel msg), w)
            | None \<Rightarrow> (Inr (), w\<lparr>embedding_model := True\<rparr>)))"

definition get_text_splitter :: "env \<Rightarrow> string \<Rightarrow> string list" where
  "get_text_splitter env =
     splitter env (CHUNK_SIZE (cfg env)) (CHUNK_OVERLAP (cfg env))
       [''\<newline>\<newline>'', ''\<newline>'', ''. '', '' '', []]"

definition get_chroma_client :: "env \<Rightarrow> world \<Rightarrow> (exn + unit) \<times> world" where
  "get_chroma_client env w =
     (if chroma_client w then (Inr (), w)
      else (case faults env OpenClient of
              Some msg \<Rightarrow> (Inl (External OpenClient msg), w)
            | None \<Rightarrow> (Inr (), w\<lparr>chroma_client := True\<rparr>)))"

definition get_vector_store :: "env \<Rightarrow> world \<Rightarrow> (exn + nat) \<times> world" where
  "get_vector_store env w =
     (case vector_store w of
        Some h \<Rightarrow> (Inr h, w)
      | None \<Rightarrow>
          (case get_embedding_model env w of
             (Inl ex, w1) \<Rightarrow> (Inl ex, w1)
           | (Inr u, w1) \<Rightarrow>
               (case get_chroma_client env w1 of
                  (Inl ex, w2) \<Rightarrow> (Inl ex, w2)
                | (Inr u, w2) \<Rightarrow>
                    (case open_collection env w2 of
                       (Inl ex, w3) \<Rightarrow> (Inl ex, w3)
                     | (Inr h, w3) \<Rightarrow> (Inr h, w3\<lparr>vector_store := Some h\<rparr>)))))"

text \<open>
  \<open>articles_to_documents\<close>: \<open>full_text\<close> is the f-string that is split, \<open>article_metadata\<close>
  the dictionary shared by the article's chunks, \<open>chunk_documents\<close> the inner loop over
  \<open>enumerate(chunks)\<close>.
\<close>

definition full_text :: "article \<Rightarrow> string" where
  "full_text a = ''Title: '' @ a_title a @ ''\<newline>\<newline>'' @ a_content a"

definition article_metadata :: "article \<Rightarrow> (string \<times> mval) list" where
  "article_metadata a =
     [(''article_id'', MStr (a_id a)),
      (''title'', MStr (a_title a)),
      (''source'', MStr (a_source a)),
      (''url'', MStr (a_url a)),
      (''published_date'',
         MStr (case a_published_date a of Some d \<Rightarrow> isoformat d | None \<Rightarrow> []))]"

definition chunk_documents :: "(string \<times> mval) list \<Rightarrow> string list \<Rightarrow> document list" where
  "chunk_documents md chunks =
     map (\<lambda>(i, chunk). \<lparr>page_content = chunk,
                          metadata = md @ [(''chunk_index'', MInt (int i))]\<rparr>)
       (enumerate 0 chunks)"

fun articles_to_documents :: "env \<Rightarrow> article list \<Rightarrow> document list" where
  "articles_to_documents env [] = []"
| "articles_to_documents env (a # articles) =
     chunk_documents (article_metadata a) (get_text_splitter env (full_text a))
     @ articles_to_documents env articles"





definition search_similar :: "env \<Rightarrow> world \<Rightarrow> string \<Rightarrow> int option
    \<Rightarrow> (exn + document list) \<times> world" where
  "search_similar env w query k =
     (let k' = (case k of None \<Rightarrow> TOP_K_RESULTS (cfg env) | Some n \<Rightarrow> n) in
      case get_vector_store env w of
        (Inl ex, w1) \<Rightarrow> (Inl ex, w1)
      | (Inr h, w1) \<Rightarrow>
          (case similarity_search env w1 h query k' of
             Inl ex \<Rightarrow> (Inr [], w1)
           | Inr results \<Rightarrow> (Inr results, w1)))"

text \<open>The dictionary \<open>get_collection_stats\<close> returns; an absent key is \<open>None\<close>.\<close>

record stats =
  st_collection_name :: string
  st_document_count :: nat
  st_embedding_model :: "string option"
  st_error :: "string option"

definition stats_error :: "env \<Rightarrow> exn \<Rightarrow> stats" where
  "stats_error env ex =
     \<lparr>st_collection_name = COLLECTION_NAME (cfg env),
      st_document_count = 0,
      st_embedding_model = None,
      st_error = Some (exn_str ex)\<rparr>"

definition get_collection_stats :: "env \<Rightarrow> world \<Rightarrow> stats \<times> world" where
  "get_collection_stats env w =
     (case get_chroma_client env w of
        (Inl ex, w1) \<Rightarrow> (stats_error env ex, w1)
      | (Inr u, w1) \<Rightarrow>
          (case get_collection env w1 of
             Inl ex \<Rightarrow> (stats_error env ex, w1)
           | Inr h \<Rightarrow>
               (case collection_count env w1 h of
                  Inl ex \<Rightarrow> (stats_error env ex, w1)
                | Inr count \<Rightarrow>
                    (\<lparr>st_collection_name = COLLECTION_NAME (cfg env),
                      st_document_count = count,
                      st_embedding_model = Some (EMBEDDING_MODEL (cfg env)),
                      st_error = None\<rparr>, w1))))"

text \<open>
  \<open>clear_collection\<close>: \<open>clear_body\<close> is the body of the \<open>try\<close>, which ends with
  \<open>_vector_store = None\<close>; the handler turns every exception into \<open>False\<close> and keeps the
  state the body had reached.
\<close>

definition clear_body :: "env \<Rightarrow> world \<Rightarrow> (exn + unit) \<times> world" where
  "clear_body env w =
     (case get_chroma_client env w of
        (Inl ex, w1) \<Rightarrow> (Inl ex, w1)
      | (Inr u, w1) \<Rightarrow>
          (case delete_collection env w1 of
             (Inl ex, w2) \<Rightarrow> (Inl ex, w2)
           | (Inr u, w2) \<Rightarrow> (Inr (), w2\<lparr>vector_store := None\<rparr>)))"

definition clear_collection :: "env \<Rightarrow> world \<Rightarrow> bool \<times> world" where
  "clear_collection env w =
     (case clear_body env w of
        (Inl ex, w1) \<Rightarrow> (False, w1)
      | (Inr u, w1) \<Rightarrow> (True, w1))"

section \<open>rag\_chain.py: context assembly and source extraction\<close>

text \<open>
  \<open>format_documents\<close>.  \<open>format_part i doc title\<close> is the f-string appended for the
  \<open>i\<close>-th document; \<open>format_loop\<close> is the \<open>for i, doc in enumerate(docs, 1)\<close> loop with
  its two accumulators \<open>formatted_parts\<close> and \<open>seen_titles\<close>.
\<close>

definition format_part :: "nat \<Rightarrow> document \<Rightarrow> mval \<Rightarrow> string" where
  "format_part i doc title =
     ''[Article '' @ str_nat i @ '']\<newline>''
     @ ''Title: '' @ py_str title @ ''\<newline>''
     @ ''Source: '' @ py_str (md_get doc ''source'' (MStr ''Unknown'')) @ ''\<newline>''
     @ ''Date: '' @ py_str (md_get doc ''published_date'' (MStr [])) @ ''\<newline>''
     @ ''Content: '' @ page_content doc @ ''\<newline>''"

fun format_loop :: "nat \<Rightarrow> document list \<Rightarrow> string list \<Rightarrow> mval set \<Rightarrow> string list" where
  "format_loop i [] formatted_parts seen_titles = formatted_parts"
| "format_loop i (doc # docs) formatted_parts seen_titles =
     (let title = md_get doc ''title'' (MStr ''Untitled'') in
      if title \<in> seen_titles then format_loop (Suc i) docs formatted_parts seen_titles
      else format_loop (Suc i) docs
             (formatted_parts @ [format_part i doc title]) (insert title seen_titles))"

definition format_documents :: "document list \<Rightarrow> string" where
  "format_documents docs =
     (if docs = [] then ''No relevant articles found.''
      else join ''\<newline>---\<newline>'' (format_loop 1 docs [] {}))"

text \<open>
  \<open>_extract_sources\<close>: the loop over \<open>docs\<close> with the accumulators \<open>seen_urls\<close> and
  \<open>sources\<close>; each source is the four-key dictionary the loop appends.
\<close>

record source_info =
  src_title :: mval
  src_source :: mval
  src_url :: mval
  src_date :: mval

fun extract_loop :: "document list \<Rightarrow> mval set \<Rightarrow> source_info list \<Rightarrow> source_info list" where
  "extract_loop [] seen_urls sources = sources"
| "extract_loop (doc # docs) seen_urls sources =
     (let url = md_get doc ''url'' (MStr '''') in
      if truthy url \<and> url \<notin> seen_urls
      then extract_loop docs (insert url seen_urls)
             (sources @ [\<lparr>src_title = md_get doc ''title'' (MStr ''Untitled''),
                           src_source = md_get doc ''source'' (MStr ''Unknown''),
                           src_url = url,
                           src_date = md_get doc ''published_date'' (MStr '''')\<rparr>])
      else extract_loop docs seen_urls sources)"

definition extract_sources :: "document list \<Rightarrow> source_info list" where
  "extract_sources docs = extract_loop docs {} []"

text \<open>
  \<open>check_ollama_available\<close>; \<open>split_colon_first s\<close> is \<open>s.split(":")[0]\<close>.
\<close>

definition split_colon_first :: "string \<Rightarrow> string" where
  "split_colon_first s = takeWhile (\<lambda>c. c \<noteq> CHR '':'') s"

definition check_ollama_available :: "env \<Rightarrow> bool \<times> string" where
  "check_ollama_available env =
     (case ollama_tags env of
        ConnectionError \<Rightarrow> (False, ''Ollama is not running. Start it with: ollama serve'')
      | ProbeError msg \<Rightarrow> (False, ''Error checking Ollama: '' @ msg)
      | Response status_code names \<Rightarrow>
          if status_code \<noteq> 200 then (False, ''Ollama server is not responding correctly'')
          else
            let model_names = map split_colon_first names;
                required_model = split_colon_first (OLLAMA_MODEL (cfg env))
            in if required_model \<notin> set model_names
               then (False, ''Model '' @ [CHR 0x27] @ OLLAMA_MODEL (cfg env) @ [CHR 0x27]
                            @ '' not found. Run: ollama pull '' @ OLLAMA_MODEL (cfg env))
               else (True, ''Ollama ready with model: '' @ OLLAMA_MODEL (cfg env)))"

text \<open>\<open>SUMMARY_PROMPT.format(context=context, question=query)\<close>.\<close>

definition summary_prompt :: "string \<Rightarrow> string \<Rightarrow> string" where
  "summary_prompt context question =
     ''You are a helpful news analyst assistant. Your task is to provide accurate, \<newline>''
     @ ''well-structured summaries based on the news articles provided in the context.\<newline>''
     @ ''\<newline>''
     @ ''CONTEXT (Retrieved News Articles):\<newline>''
     @ context @ ''\<newline>''
     @ ''\<newline>''
     @ ''USER QUESTION: '' @ question @ ''\<newline>''
     @ ''\<newline>''
     @ ''INSTRUCTIONS:\<newline>''
     @ ''1. Analyze the provided news articles carefully\<newline>''
     @ ''2. Synthesize information from multiple sources when available\<newline>''
     @ ''3. Provide a clear, concise summary that answers the user'' @ [CHR 0x27]
     @ ''s question\<newline>''
     @ ''4. Mention the sources of information when relevant\<newline>''
     @ ''5. If the context doesn'' @ [CHR 0x27]
     @ ''t contain enough information, acknowledge this limitation\<newline>''
     @ ''6. Use bullet points for key facts when appropriate\<newline>''
     @ ''\<newline>''
     @ ''SUMMARY:''"

text \<open>
  The dictionary \<open>summarize_news\<close> returns; \<open>o_sources\<close> is \<open>None\<close> when the key
  \<open>sources\<close> is absent.  \<open>warning_sign\<close> is the two-character warning emoji that starts
  the summary of the degraded outcome (U+26A0 U+FE0F, given by its UTF-8 bytes).
\<close>

record outcome =
  o_summary :: string
  o_sources :: "source_info list option"
  o_status :: string

definition warning_sign :: string where
  "warning_sign = [CHR 0xE2, CHR 0x9A, CHR 0xA0, CHR 0xEF, CHR 0xB8, CHR 0x8F]"

definition no_data :: outcome where
  "no_data =
     \<lparr>o_summary = ''No news articles have been indexed yet. Please fetch and index some articles first.'',
      o_sources = Some [],
      o_status = ''no_data''\<rparr>"

definition no_results :: outcome where
  "no_results =
     \<lparr>o_summary = ''No relevant articles found for your query. Try a different search term.'',
      o_sources = Some [],
      o_status = ''no_results''\<rparr>"

definition llm_unavailable :: "string \<Rightarrow> string \<Rightarrow> document list \<Rightarrow> outcome" where
  "llm_unavailable ollama_status context docs =
     \<lparr>o_summary = warning_sign @ '' LLM not available: '' @ ollama_status
                  @ ''\<newline>\<newline>Retrieved articles:\<newline>\<newline>'' @ context,
      o_sources = Some (extract_sources docs),
      o_status = ''llm_unavailable''\<rparr>"

definition generate :: "env \<Rightarrow> string \<Rightarrow> string \<Rightarrow> document list \<Rightarrow> bool \<Rightarrow> outcome" where
  \<comment> \<open>the final \<open>try / except\<close> of \<open>summarize_news\<close>\<close>
  "generate env query context docs return_sources =
     (case llm_invoke env (summary_prompt context query) of
        Inr summary \<Rightarrow>
          \<lparr>o_summary = summary,
           o_sources = (if return_sources then Some (extract_sources docs) else None),
           o_status = ''success''\<rparr>
      | Inl msg \<Rightarrow>
          \<lparr>o_summary = ''Error generating summary: '' @ msg
                       @ ''\<newline>\<newline>Retrieved context:\<newline>\<newline>'' @ context,
           o_sources = Some (extract_sources docs),
           o_status = ''error''\<rparr>)"

definition summarize_news :: "env \<Rightarrow> world \<Rightarrow> string \<Rightarrow> int option \<Rightarrow> bool
    \<Rightarrow> (exn + outcome) \<times> world" where
  "summarize_news env w query k return_sources =
     (case get_collection_stats env w of
        (stats, w1) \<Rightarrow>
          if st_document_count stats = 0 then (Inr no_data, w1)
          else
            let k' = (case k of None \<Rightarrow> TOP_K_RESULTS (cfg env) | Some n \<Rightarrow> n) in
            case search_similar env w1 query (Some k') of
              (Inl ex, w2) \<Rightarrow> (Inl ex, w2)
            | (Inr docs, w2) \<Rightarrow>
                if docs = [] then (Inr no_results, w2)
                else
                  let context = format_documents docs in
                  case check_ollama_available env of
                    (ollama_available, ollama_status) \<Rightarrow>
                      if \<not> ollama_available
                      then (Inr (llm_unavailable ollama_status context docs), w2)
                      else (Inr (generate env query context docs return_sources), w2))"

text \<open>
  The reading of the retrieval-dedup property: the title of a document is what the loop
  reads, \<open>metadata.get("title", "Untitled")\<close>, and the surviving entries are the pairs
  (position counted from 1, document) whose title does not occur at an earlier position.
\<close>

definition doc_title :: "document \<Rightarrow> mval" where
  "doc_title doc = md_get doc ''title'' (MStr ''Untitled'')"

definition surviving :: "document list \<Rightarrow> (nat \<times> document) list" where
  "surviving docs =
     filter (\<lambda>(i, d). doc_title d \<notin> doc_title ` set (take (i - 1) docs)) (enumerate 1 docs)"

definition has_url :: "document \<Rightarrow> bool" where
  "has_url doc = truthy (md_get doc ''url'' (MStr []))"

section \<open>Example inputs\<close>

definition example_doc :: "string \<Rightarrow> string \<Rightarrow> string \<Rightarrow> document" where
  "example_doc title url text =
     \<lparr>page_content = text, metadata = [(''title'', MStr title), (''url'', MStr url)]\<rparr>"

definition dup_docs :: "document list" where
  "dup_docs = [example_doc ''Rates rise'' ''u1'' ''first'',
               example_doc ''Rates rise'' ''u1'' ''second'',
               example_doc ''Floods'' ''u2'' ''third'']"

definition no_url_docs :: "document list" where
  "no_url_docs = [\<lparr>page_content = ''text'', metadata = [(''title'', MStr ''Floods'')]\<rparr>,
                  example_doc ''Rates rise'' [] ''more'']"

definition quiet :: "extcall \<Rightarrow> string option" where
  "quiet c = None"

definition example_env :: env where
  "example_env =
     \<lparr>cfg = default_settings,
      faults = quiet,
      splitter = (\<lambda>size overlap seps text. [text]),
      ranking = (\<lambda>query k es. [0..<length es]),
      md5_hexdigest = (\<lambda>url. ''id-'' @ url),
      ollama_tags = ConnectionError,
      llm_invoke = (\<lambda>prompt. Inl ''connection refused'')\<rparr>"

definition delete_fails :: "extcall \<Rightarrow> string option" where
  "delete_fails c = (if c = DeleteCollection then Some ''database is locked'' else None)"

definition open_fails :: "extcall \<Rightarrow> string option" where
  "open_fails c = (if c = OpenClient then Some ''unable to open database file'' else None)"

definition fresh_world :: world where
  "fresh_world =
     \<lparr>embedding_model = False, chroma_client = False, vector_store = None,
      stored = None, next_id = 0\<rparr>"

definition indexed_world :: world where
  "indexed_world =
     \<lparr>embedding_model = True, chroma_client = True, vector_store = Some 0,
      stored = Some (0, [(''a_0'', \<lparr>page_content = ''text'', metadata = [(''title'', MStr ''Floods'')]\<rparr>)]),
      next_id = 1\<rparr>"


definition search_fails :: "extcall \<Rightarrow> string option" where
  "search_fails c = (if c = SimilaritySearch then Some ''index is corrupt'' else None)"

definition no_match :: "string \<Rightarrow> int \<Rightarrow> (string \<times> document) list \<Rightarrow> nat list" where
  "no_match query k es = []"

definition sourced_world :: world where
  "sourced_world =
     \<lparr>embedding_model = True, chroma_client = True, vector_store = Some 0,
      stored = Some (0, [(''a_0'', example_doc ''Rates rise'' ''u1'' ''first'')]),
      next_id = 1\<rparr>"

definition untitled_article :: article where
  "untitled_article =
     \<lparr>a_id = ''id-u3'', a_title = [], a_content = ''Body text.'', a_summary = ''Summary.'',
      a_source = ''Feed'', a_url = ''u3'', a_published_date = None\<rparr>"

definition summary_only_entry :: entry where
  "summary_only_entry =
     \<lparr>e_content = None, e_description = Some [], e_summary = Some ''Summary.'',
      e_title = Some ''Rates rise'', e_link = Some ''u4'',
      e_published_parsed = None, e_updated_parsed = None\<rparr>"

definition summary_article :: article where
  "summary_article =
     \<lparr>a_id = ''id-u4'', a_title = ''Rates rise'', a_content = ''Summary.'',
      a_summary = ''Summary.'', a_source = ''Feed'', a_url = ''u4'',
      a_published_date = None\<rparr>"




section \<open>Context assembly and source extraction: properties\<close>

lemma format_loop_surv:
  "format_loop (Suc (length pre)) docs parts (doc_title ` set pre) =
     parts @ map (\<lambda>(i, d). format_part i d (doc_title d))
       (filter (\<lambda>(i, d). doc_title d \<notin> doc_title ` set (take (i - 1) (pre @ docs)))
          (enumerate (Suc (length pre)) docs))"
proof (induction docs arbitrary: pre parts)
  case Nil
  then show ?case by simp
next
  case (Cons d ds)
  have step: "doc_title ` set (pre @ [d]) = insert (doc_title d) (doc_title ` set pre)"
    by simp
  have len: "Suc (length (pre @ [d])) = Suc (Suc (length pre))" by simp
  note IH = Cons.IH [of "pre @ [d]", unfolded len step, simplified]
  show ?case
  proof (cases "doc_title d \<in> doc_title ` set pre")
    case True
    then have "insert (doc_title d) (doc_title ` set pre) = doc_title ` set pre" by auto
    with True IH show ?thesis
      by (simp add: doc_title_def [symmetric] Let_def)
  next
    case False
    with IH show ?thesis
      by (simp add: doc_title_def [symmetric] Let_def)
  qed
qed

lemma surviving_distinct_gen:
  "distinct (map (f \<circ> snd) (filter (\<lambda>(i, d). f d \<notin> f ` set (take (i - n) xs)) (enumerate n xs)))"
proof (induction xs rule: rev_induct)
  case Nil
  then show ?case by simp
next
  case (snoc x xs)
  have eq: "filter (\<lambda>(i, d). f d \<notin> f ` set (take (i - n) (xs @ [x]))) (enumerate n xs)
          = filter (\<lambda>(i, d). f d \<notin> f ` set (take (i - n) xs)) (enumerate n xs)"
    by (rule filter_cong) (auto simp: in_set_enumerate_eq)
  have sub: "(f \<circ> snd) ` set (filter (\<lambda>(i, d). f d \<notin> f ` set (take (i - n) xs)) (enumerate n xs))
               \<subseteq> f ` set xs"
    by (auto simp: in_set_enumerate_eq)
  have split: "filter (\<lambda>(i, d). f d \<notin> f ` set (take (i - n) (xs @ [x]))) (enumerate n (xs @ [x]))
      = filter (\<lambda>(i, d). f d \<notin> f ` set (take (i - n) xs)) (enumerate n xs)
        @ (if f x \<notin> f ` set xs then [(n + length xs, x)] else [])"
    unfolding enumerate_append_eq filter_append eq by simp
  show ?case
    unfolding split using snoc.IH sub by auto
qed

lemma surviving_titles_gen:
  "(f \<circ> snd) ` set (filter (\<lambda>(i, d). f d \<notin> f ` set (take (i - n) xs)) (enumerate n xs)) = f ` set xs"
proof (induction xs rule: rev_induct)
  case Nil
  then show ?case by simp
next
  case (snoc x xs)
  have eq: "filter (\<lambda>(i, d). f d \<notin> f ` set (take (i - n) (xs @ [x]))) (enumerate n xs)
          = filter (\<lambda>(i, d). f d \<notin> f ` set (take (i - n) xs)) (enumerate n xs)"
    by (rule filter_cong) (auto simp: in_set_enumerate_eq)
  have split: "filter (\<lambda>(i, d). f d \<notin> f ` set (take (i - n) (xs @ [x]))) (enumerate n (xs @ [x]))
      = filter (\<lambda>(i, d). f d \<notin> f ` set (take (i - n) xs)) (enumerate n xs)
        @ (if f x \<notin> f ` set xs then [(n + length xs, x)] else [])"
    unfolding enumerate_append_eq filter_append eq by simp
  show ?case
    unfolding split using snoc.IH by auto
qed

text \<open>
  Claim C5.  For every list of retrieved documents, taken in relevance order, the parts
  that \<open>format_documents\<close> joins into the context are exactly the renderings of the
  surviving entries: the documents whose title occurs at no earlier position, each with
  its position in the list.  So there is one part per distinct title, it belongs to the
  first document with that title, and every later document with a title already seen
  is left out.
\<close>

theorem format_documents_first_title_wins:
  "format_loop 1 docs [] {} = map (\<lambda>(i, d). format_part i d (doc_title d)) (surviving docs)
   \<and> distinct (map (doc_title \<circ> snd) (surviving docs))
   \<and> (doc_title \<circ> snd) ` set (surviving docs) = doc_title ` set docs
   \<and> (docs \<noteq> [] \<longrightarrow>
        format_documents docs =
          join ''\<newline>---\<newline>'' (map (\<lambda>(i, d). format_part i d (doc_title d)) (surviving docs)))"
proof -
  have loop: "format_loop 1 docs [] {} =
      map (\<lambda>(i, d). format_part i d (doc_title d)) (surviving docs)"
    using format_loop_surv [of "[]" docs "[]"] by (simp add: surviving_def)
  have dist: "distinct (map (doc_title \<circ> snd) (surviving docs))"
    unfolding surviving_def by (rule surviving_distinct_gen)
  have titles: "(doc_title \<circ> snd) ` set (surviving docs) = doc_title ` set docs"
    unfolding surviving_def by (rule surviving_titles_gen)
  from loop dist titles show ?thesis
    by (simp add: format_documents_def)
qed

lemma surviving_dup_docs:
  "surviving dup_docs = [(1, example_doc ''Rates rise'' ''u1'' ''first''),
                         (3, example_doc ''Floods'' ''u2'' ''third'')]"
  by (simp add: surviving_def dup_docs_def enumerate_eq_zip doc_title_def md_get_def example_doc_def upt_rec)

theorem format_documents_first_title_wins_witness:
  "dup_docs \<noteq> []
   \<and> surviving dup_docs = [(1, example_doc ''Rates rise'' ''u1'' ''first''),
                            (3, example_doc ''Floods'' ''u2'' ''third'')]
   \<and> format_documents dup_docs =
       join ''\<newline>---\<newline>''
         [format_part 1 (example_doc ''Rates rise'' ''u1'' ''first'') (MStr ''Rates rise''),
          format_part 3 (example_doc ''Floods'' ''u2'' ''third'') (MStr ''Floods'')]"
proof -
  have ne: "dup_docs \<noteq> []" by (simp add: dup_docs_def)
  have t: "doc_title (example_doc ''Rates rise'' ''u1'' ''first'') = MStr ''Rates rise''"
      "doc_title (example_doc ''Floods'' ''u2'' ''third'') = MStr ''Floods''"
    by (simp_all add: doc_title_def md_get_def example_doc_def)
  from format_documents_first_title_wins [of dup_docs] ne
  have "format_documents dup_docs =
          join ''\<newline>---\<newline>'' (map (\<lambda>(i, d). format_part i d (doc_title d)) (surviving dup_docs))"
    by blast
  with ne surviving_dup_docs t show ?thesis by simp
qed

lemma extract_loop_filter:
  "extract_loop docs seen acc = extract_loop (filter has_url docs) seen acc"
  by (induction docs arbitrary: seen acc) (simp_all add: has_url_def Let_def)

lemma extract_loop_truthy:
  "\<forall>s \<in> set acc. truthy (src_url s) \<Longrightarrow> \<forall>s \<in> set (extract_loop docs seen acc). truthy (src_url s)"
proof (induction docs arbitrary: seen acc)
  case Nil
  then show ?case by simp
next
  case (Cons d docs)
  show ?case
  proof (cases "truthy (md_get d ''url'' (MStr [])) \<and> md_get d ''url'' (MStr []) \<notin> seen")
    case True
    have "\<forall>s \<in> set (acc @ [\<lparr>src_title = md_get d ''title'' (MStr ''Untitled''),
                           src_source = md_get d ''source'' (MStr ''Unknown''),
                           src_url = md_get d ''url'' (MStr []),
                           src_date = md_get d ''published_date'' (MStr [])\<rparr>]). truthy (src_url s)"
      using Cons.prems True by simp
    from Cons.IH [OF this] True show ?thesis by (simp add: Let_def)
  next
    case False
    with Cons.IH [OF Cons.prems] show ?thesis by (auto simp: Let_def)
  qed
qed

lemma no_url_not_has_url:
  "map_of (metadata d) ''url'' = None \<or> map_of (metadata d) ''url'' = Some (MStr []) \<Longrightarrow> \<not> has_url d"
  by (auto simp: has_url_def md_get_def)

text \<open>
  Claim C9.  For every list of retrieved documents, \<open>_extract_sources\<close> returns what it
  returns for the documents that have a truthy \<open>url\<close>: a document whose \<open>url\<close> is missing
  or the empty string contributes nothing, every returned source has a non-empty url,
  and when no document has one the source list is empty, although the document list and
  the context built from it are not.
\<close>

theorem extract_sources_omits_missing_url:
  "extract_sources docs = extract_sources (filter has_url docs)
   \<and> (\<forall>s \<in> set (extract_sources docs). truthy (src_url s))
   \<and> ((\<forall>d \<in> set docs. map_of (metadata d) ''url'' = None
                        \<or> map_of (metadata d) ''url'' = Some (MStr []))
        \<longrightarrow> extract_sources docs = [])"
proof -
  have a: "extract_sources docs = extract_sources (filter has_url docs)"
    unfolding extract_sources_def by (rule extract_loop_filter)
  have b: "\<forall>s \<in> set (extract_sources docs). truthy (src_url s)"
    unfolding extract_sources_def by (rule extract_loop_truthy) simp
  have c: "extract_sources docs = []"
    if "\<forall>d \<in> set docs. map_of (metadata d) ''url'' = None
                        \<or> map_of (metadata d) ''url'' = Some (MStr [])"
  proof -
    from that have "filter has_url docs = []"
      using no_url_not_has_url by (simp add: filter_empty_conv)
    with a show ?thesis by (simp add: extract_sources_def)
  qed
  from a b c show ?thesis by blast
qed

theorem extract_sources_omits_missing_url_witness:
  "no_url_docs \<noteq> []
   \<and> extract_sources no_url_docs = []
   \<and> format_documents no_url_docs \<noteq> []"
proof -
  have h: "\<forall>d \<in> set no_url_docs. map_of (metadata d) ''url'' = None
                        \<or> map_of (metadata d) ''url'' = Some (MStr [])"
    by (simp add: no_url_docs_def example_doc_def)
  have ne: "no_url_docs \<noteq> []" by (simp add: no_url_docs_def)
  have ctx: "format_documents no_url_docs \<noteq> []"
    by (simp add: format_documents_def no_url_docs_def example_doc_def md_get_def Let_def format_part_def)
  from extract_sources_omits_missing_url [of no_url_docs] h ne ctx show ?thesis by blast
qed

section \<open>Clearing the collection\<close>

lemma get_chroma_client_frame:
  "get_chroma_client env w = (r, w1) \<Longrightarrow>
     vector_store w1 = vector_store w \<and> stored w1 = stored w \<and> next_id w1 = next_id w"
  by (auto simp: get_chroma_client_def split: if_splits option.splits)

lemma get_embedding_model_frame:
  "get_embedding_model env w = (r, w1) \<Longrightarrow>
     vector_store w1 = vector_store w \<and> stored w1 = stored w \<and> next_id w1 = next_id w"
  by (auto simp: get_embedding_model_def split: if_splits option.splits)

lemma delete_collection_Inl:
  "delete_collection env w = (Inl ex, w1) \<Longrightarrow> w1 = w"
  by (auto simp: delete_collection_def split: option.splits)

lemma delete_collection_Inr:
  "delete_collection env w = (Inr u, w1) \<Longrightarrow> w1 = w\<lparr>stored := None\<rparr>"
  by (auto simp: delete_collection_def split: option.splits)

lemma clear_body_Inl:
  assumes "clear_body env w = (Inl ex, w1)"
  shows "vector_store w1 = vector_store w \<and> stored w1 = stored w"
proof (cases "get_chroma_client env w")
  case (Pair r wa)
  note fr = get_chroma_client_frame [OF Pair]
  show ?thesis
  proof (cases r)
    case (Inl e)
    with assms Pair fr show ?thesis by (simp add: clear_body_def)
  next
    case (Inr u)
    show ?thesis
    proof (cases "delete_collection env wa")
      case (Pair r2 wb)
      with assms \<open>get_chroma_client env w = (r, wa)\<close> Inr fr show ?thesis
        by (cases r2) (auto simp: clear_body_def dest: delete_collection_Inl)
    qed
  qed
qed

lemma clear_body_Inr:
  assumes "clear_body env w = (Inr u, w1)"
  shows "vector_store w1 = None \<and> stored w1 = None \<and> next_id w1 = next_id w"
proof (cases "get_chroma_client env w")
  case (Pair r wa)
  note fr = get_chroma_client_frame [OF Pair]
  show ?thesis
  proof (cases r)
    case (Inl e)
    with assms Pair show ?thesis by (simp add: clear_body_def)
  next
    case (Inr u)
    show ?thesis
    proof (cases "delete_collection env wa")
      case (Pair r2 wb)
      with assms \<open>get_chroma_client env w = (r, wa)\<close> Inr fr show ?thesis
        by (cases r2) (auto simp: clear_body_def dest: delete_collection_Inr)
    qed
  qed
qed

lemma clear_body_fails:
  "(\<not> chroma_client w \<and> faults env OpenClient \<noteq> None) \<or> faults env DeleteCollection \<noteq> None
     \<or> stored w = None \<Longrightarrow> \<exists>ex. fst (clear_body env w) = Inl ex"
  by (auto simp: clear_body_def get_chroma_client_def delete_collection_def split: option.splits)

lemma clear_collection_fst:
  "(\<not> fst (clear_collection env w)) = (\<exists>ex. fst (clear_body env w) = Inl ex)"
  by (cases "clear_body env w"; cases "fst (clear_body env w)") (auto simp: clear_collection_def)

lemma clear_collection_snd:
  "snd (clear_collection env w) = snd (clear_body env w)"
  by (cases "clear_body env w"; cases "fst (clear_body env w)") (auto simp: clear_collection_def)

text \<open>
  Claim C10.  \<open>clear_collection\<close> never raises: every exception of its body (the client
  cannot be opened, the deletion fails, the collection does not exist) is turned into
  the result \<open>False\<close>.  In that case \<open>_vector_store\<close> and the stored collection are as
  they were, so a handle cached before the call is what \<open>get_vector_store\<close> returns
  afterwards.
\<close>

theorem clear_collection_failure_keeps_handle:
  "((\<exists>ex. fst (clear_body env w) = Inl ex) \<longrightarrow> \<not> fst (clear_collection env w))
   \<and> ((\<not> chroma_client w \<and> faults env OpenClient \<noteq> None) \<or> faults env DeleteCollection \<noteq> None
        \<or> stored w = None \<longrightarrow> \<not> fst (clear_collection env w))
   \<and> (\<not> fst (clear_collection env w) \<longrightarrow>
        vector_store (snd (clear_collection env w)) = vector_store w
        \<and> stored (snd (clear_collection env w)) = stored w
        \<and> (\<forall>h. vector_store w = Some h \<longrightarrow>
              get_vector_store env' (snd (clear_collection env w))
                = (Inr h, snd (clear_collection env w))))"
proof -
  have keep: "vector_store (snd (clear_collection env w)) = vector_store w
        \<and> stored (snd (clear_collection env w)) = stored w"
    if "\<not> fst (clear_collection env w)"
  proof -
    from that obtain ex where "fst (clear_body env w) = Inl ex"
      by (auto simp: clear_collection_fst)
    then have "clear_body env w = (Inl ex, snd (clear_body env w))"
      by (cases "clear_body env w") simp
    from clear_body_Inl [OF this] show ?thesis by (simp add: clear_collection_snd)
  qed
  have again: "get_vector_store env' (snd (clear_collection env w))
                = (Inr h, snd (clear_collection env w))"
    if "\<not> fst (clear_collection env w)" "vector_store w = Some h" for h
    using keep [OF that(1)] that(2) by (simp add: get_vector_store_def)
  from keep again clear_body_fails [of w env] show ?thesis
    by (auto simp: clear_collection_fst)
qed

theorem clear_collection_failure_keeps_handle_witness:
  "faults (example_env\<lparr>faults := delete_fails\<rparr>) DeleteCollection \<noteq> None
   \<and> vector_store indexed_world = Some 0
   \<and> \<not> fst (clear_collection (example_env\<lparr>faults := delete_fails\<rparr>) indexed_world)
   \<and> vector_store (snd (clear_collection (example_env\<lparr>faults := delete_fails\<rparr>) indexed_world)) = Some 0
   \<and> get_vector_store example_env (snd (clear_collection (example_env\<lparr>faults := delete_fails\<rparr>) indexed_world))
        = (Inr 0, snd (clear_collection (example_env\<lparr>faults := delete_fails\<rparr>) indexed_world))"
proof -
  have f: "faults (example_env\<lparr>faults := delete_fails\<rparr>) DeleteCollection \<noteq> None"
    by (simp add: delete_fails_def)
  have v: "vector_store indexed_world = Some 0"
    by (simp add: indexed_world_def)
  from clear_collection_failure_keeps_handle
         [of "example_env\<lparr>faults := delete_fails\<rparr>" indexed_world example_env] f v
  show ?thesis by simp
qed

section \<open>Handles and searches\<close>

lemma open_collection_Inr:
  assumes "open_collection env w = (Inr h, w1)"
  shows "entries_of w1 h \<noteq> None \<and> vector_store w1 = vector_store w
         \<and> (stored w = None \<longrightarrow> stored w1 = Some (h, []) \<and> h = next_id w)"
  using assms
  by (auto simp: open_collection_def entries_of_def split: option.splits)

lemma get_vector_store_cached:
  "vector_store w = Some h \<Longrightarrow> get_vector_store env w = (Inr h, w)"
  by (simp add: get_vector_store_def)

lemma get_vector_store_new:
  assumes "vector_store w = None" and "get_vector_store env w = (Inr h, w1)"
  shows "vector_store w1 = Some h \<and> entries_of w1 h \<noteq> None
         \<and> (stored w = None \<longrightarrow> stored w1 = Some (h, []) \<and> h = next_id w)"
proof (cases "get_embedding_model env w")
  case (Pair r1 wa)
  note f1 = get_embedding_model_frame [OF Pair]
  show ?thesis
  proof (cases "get_chroma_client env wa")
    case (Pair r2 wb)
    note f2 = get_chroma_client_frame [OF Pair]
    show ?thesis
    proof (cases "open_collection env wb")
      case (Pair r3 wc)
      from assms \<open>get_embedding_model env w = (r1, wa)\<close> \<open>get_chroma_client env wa = (r2, wb)\<close> Pair
      have r3: "r3 = Inr h" and w1: "w1 = wc\<lparr>vector_store := Some h\<rparr>"
        by (auto simp: get_vector_store_def split: sum.splits)
      from open_collection_Inr [OF Pair [unfolded r3]] f1 f2 w1
      show ?thesis by (auto simp: entries_of_def)
    qed
  qed
qed


lemma similarity_search_empty:
  "entries_of w h = Some [] \<Longrightarrow>
     (\<exists>ex. similarity_search env w h q k = Inl ex) \<or> similarity_search env w h q k = Inr []"
  by (auto simp: similarity_search_def split: option.splits)

lemma similarity_search_fails:
  "entries_of w h = None \<or> faults env SimilaritySearch \<noteq> None \<Longrightarrow> \<exists>ex. similarity_search env w h q k = Inl ex"
  by (auto simp: similarity_search_def split: option.splits)

lemma search_similar_via_handle:
  assumes "get_vector_store env w = (Inr h, w1)"
  shows "search_similar env w q k =
           (case similarity_search env w1 h q (case k of None \<Rightarrow> TOP_K_RESULTS (cfg env) | Some n \<Rightarrow> n) of
              Inl ex \<Rightarrow> (Inr [], w1) | Inr results \<Rightarrow> (Inr results, w1))"
  using assms by (simp add: search_similar_def Let_def)

lemma search_similar_raises:
  "(fst (search_similar env w q k) = Inl ex) = (fst (get_vector_store env w) = Inl ex)"
proof (cases "get_vector_store env w")
  case (Pair r w1)
  show ?thesis
  proof (cases r)
    case (Inl e)
    with Pair show ?thesis by (simp add: search_similar_def Let_def)
  next
    case (Inr h)
    with Pair show ?thesis
      by (simp add: search_similar_def Let_def split: sum.splits)
  qed
qed

lemma get_collection_stats_missing:
  "stored w = None \<Longrightarrow> st_document_count (fst (get_collection_stats env w)) = 0"
proof -
  assume a: "stored w = None"
  obtain r w1 where g: "get_chroma_client env w = (r, w1)" by (cases "get_chroma_client env w")
  from get_chroma_client_frame [OF g] a have "stored w1 = None" by simp
  then have "get_collection env w1 = Inl (missing GetCollection) \<or> (\<exists>m. get_collection env w1 = Inl (External GetCollection m))"
    by (auto simp: get_collection_def split: option.splits)
  with g show ?thesis
    by (cases r) (auto simp: get_collection_stats_def stats_error_def)
qed

lemma get_collection_stats_empty:
  "stored w = Some (h, []) \<Longrightarrow> st_document_count (fst (get_collection_stats env w)) = 0"
proof -
  assume a: "stored w = Some (h, [])"
  obtain r w1 where g: "get_chroma_client env w = (r, w1)" by (cases "get_chroma_client env w")
  from get_chroma_client_frame [OF g] a have s: "stored w1 = Some (h, [])" by simp
  show ?thesis
  proof (cases r)
    case (Inl e)
    with g show ?thesis by (simp add: get_collection_stats_def stats_error_def)
  next
    case (Inr u)
    with g s show ?thesis
      by (auto simp: get_collection_stats_def stats_error_def get_collection_def
            collection_count_def entries_of_def split: option.splits sum.splits)
  qed
qed

text \<open>
  Claim C8.  After a successful \<open>clear_collection\<close> the cached handle is \<open>None\<close> and the
  collection is gone, so the count reported is 0.  The next operation that asks for the
  vector store, \<open>get_vector_store\<close> at the start of \<open>index_articles\<close> or of
  \<open>search_similar\<close>, therefore constructs a handle, and that handle is over a newly
  created, empty collection: the count reported then is 0 as well, and a query finds
  nothing.
\<close>

theorem clear_collection_resets_handle:
  assumes "clear_collection env w = (True, w1)"
  shows "vector_store w1 = None \<and> stored w1 = None
         \<and> st_document_count (fst (get_collection_stats env2 w1)) = 0
         \<and> (get_vector_store env1 w1 = (Inr h, w2) \<longrightarrow>
               vector_store w2 = Some h \<and> stored w2 = Some (h, []) \<and> h = next_id w
               \<and> st_document_count (fst (get_collection_stats env2 w2)) = 0)
         \<and> (search_similar env1 w1 query k = (Inr docs, w3) \<longrightarrow>
               docs = [] \<and> (\<exists>h'. vector_store w3 = Some h' \<and> stored w3 = Some (h', [])))"
proof -
  from assms have "clear_body env w = (Inr (), w1)"
    by (cases "clear_body env w"; cases "fst (clear_body env w)") (auto simp: clear_collection_def)
  from clear_body_Inr [OF this]
  have v: "vector_store w1 = None" and s: "stored w1 = None" and n: "next_id w1 = next_id w"
    by simp_all
  have c: "st_document_count (fst (get_collection_stats env2 w1)) = 0"
    using s by (rule get_collection_stats_missing)
  have new: "vector_store w2 = Some h \<and> stored w2 = Some (h, []) \<and> h = next_id w
               \<and> st_document_count (fst (get_collection_stats env2 w2)) = 0"
    if g: "get_vector_store env1 w1 = (Inr h, w2)" for h w2
  proof -
    from get_vector_store_new [OF v g] s n
    have a: "vector_store w2 = Some h" "stored w2 = Some (h, [])" "h = next_id w" by simp_all
    from a(2) have "st_document_count (fst (get_collection_stats env2 w2)) = 0"
      by (rule get_collection_stats_empty)
    with a show ?thesis by simp
  qed
  have srch: "docs = [] \<and> (\<exists>h'. vector_store w3 = Some h' \<and> stored w3 = Some (h', []))"
    if q: "search_similar env1 w1 query k = (Inr docs, w3)"
  proof -
    obtain r wa where g: "get_vector_store env1 w1 = (r, wa)" by (cases "get_vector_store env1 w1")
    from q g obtain h' where r: "r = Inr h'"
      by (cases r) (auto simp: search_similar_def Let_def)
    from new [OF g [unfolded r]] have a: "vector_store wa = Some h'" "stored wa = Some (h', [])"
      by simp_all
    then have e: "entries_of wa h' = Some []" by (simp add: entries_of_def)
    from q search_similar_via_handle [OF g [unfolded r], of query k]
      similarity_search_empty [OF e, of env1 query "(case k of None \<Rightarrow> TOP_K_RESULTS (cfg env1) | Some n \<Rightarrow> n)"] a
    show ?thesis by (auto split: sum.splits)
  qed
  from v s c new srch show ?thesis by blast
qed

theorem clear_collection_resets_handle_witness:
  "clear_collection example_env indexed_world = (True, indexed_world\<lparr>vector_store := None, stored := None\<rparr>)
   \<and> get_vector_store example_env (indexed_world\<lparr>vector_store := None, stored := None\<rparr>)
       = (Inr 1, indexed_world\<lparr>vector_store := Some 1, stored := Some (1, []), next_id := 2\<rparr>)
   \<and> st_document_count (fst (get_collection_stats example_env
        (indexed_world\<lparr>vector_store := Some 1, stored := Some (1, []), next_id := 2\<rparr>))) = 0"
proof -
  have c: "clear_collection example_env indexed_world = (True, indexed_world\<lparr>vector_store := None, stored := None\<rparr>)"
    by (simp add: clear_collection_def clear_body_def get_chroma_client_def delete_collection_def
          indexed_world_def example_env_def quiet_def)
  have g: "get_vector_store example_env (indexed_world\<lparr>vector_store := None, stored := None\<rparr>)
       = (Inr 1, indexed_world\<lparr>vector_store := Some 1, stored := Some (1, []), next_id := 2\<rparr>)"
    by (simp add: get_vector_store_def get_embedding_model_def get_chroma_client_def open_collection_def
          indexed_world_def example_env_def quiet_def)
  from clear_collection_resets_handle [OF c, of example_env example_env 1
      "indexed_world\<lparr>vector_store := Some 1, stored := Some (1, []), next_id := 2\<rparr>"] g
  have "st_document_count (fst (get_collection_stats example_env
        (indexed_world\<lparr>vector_store := Some 1, stored := Some (1, []), next_id := 2\<rparr>))) = 0"
    by blast
  with c g show ?thesis by blast
qed

section \<open>Retrieval outcomes\<close>

lemma summarize_news_zero:
  "st_document_count (fst (get_collection_stats env w)) = 0 \<Longrightarrow>
     summarize_news env w query k rs = (Inr no_data, snd (get_collection_stats env w))"
  by (cases "get_collection_stats env w") (simp add: summarize_news_def)

lemma summarize_news_nonzero:
  assumes "st_document_count (fst (get_collection_stats env w)) \<noteq> 0"
    and "search_similar env (snd (get_collection_stats env w)) query
           (Some (case k of None \<Rightarrow> TOP_K_RESULTS (cfg env) | Some n \<Rightarrow> n)) = (Inr docs, w2)"
  shows "summarize_news env w query k rs =
           (if docs = [] then (Inr no_results, w2)
            else if \<not> fst (check_ollama_available env)
            then (Inr (llm_unavailable (snd (check_ollama_available env)) (format_documents docs) docs), w2)
            else (Inr (generate env query (format_documents docs) docs rs), w2))"
  using assms
  by (cases "get_collection_stats env w"; cases "check_ollama_available env")
     (simp add: summarize_news_def Let_def)

text \<open>
  Claim C4.  For every query and every \<open>k\<close>: when \<open>get_collection_stats\<close> reports zero
  documents, which it does for an empty collection, for a collection that does not
  exist and whenever reading the count raises, \<open>summarize_news\<close> returns the outcome
  with status \<open>no_data\<close> and no sources, and does not raise.  When the count is not zero
  and the search returns nothing the outcome is \<open>no_results\<close>, whose status differs.
\<close>

theorem summarize_news_no_data:
  "(st_document_count (fst (get_collection_stats env w)) = 0 \<longrightarrow>
      fst (summarize_news env w query k rs) = Inr no_data)
   \<and> (stored w = None \<longrightarrow> fst (summarize_news env w query k rs) = Inr no_data)
   \<and> o_status no_data = ''no_data'' \<and> o_sources no_data = Some []
   \<and> (st_document_count (fst (get_collection_stats env w)) \<noteq> 0
        \<and> fst (search_similar env (snd (get_collection_stats env w)) query
                 (Some (case k of None \<Rightarrow> TOP_K_RESULTS (cfg env) | Some n \<Rightarrow> n))) = Inr []
        \<longrightarrow> fst (summarize_news env w query k rs) = Inr no_results)
   \<and> o_status no_results = ''no_results''
   \<and> o_status no_data \<noteq> o_status no_results"
proof -
  have a: "fst (summarize_news env w query k rs) = Inr no_data"
    if "st_document_count (fst (get_collection_stats env w)) = 0"
    using summarize_news_zero [OF that] by simp
  have b: "fst (summarize_news env w query k rs) = Inr no_data" if "stored w = None"
    using a get_collection_stats_missing [OF that] by simp
  have c: "fst (summarize_news env w query k rs) = Inr no_results"
    if "st_document_count (fst (get_collection_stats env w)) \<noteq> 0"
      and "fst (search_similar env (snd (get_collection_stats env w)) query
                 (Some (case k of None \<Rightarrow> TOP_K_RESULTS (cfg env) | Some n \<Rightarrow> n))) = Inr []"
  proof -
    from that(2) have "search_similar env (snd (get_collection_stats env w)) query
                 (Some (case k of None \<Rightarrow> TOP_K_RESULTS (cfg env) | Some n \<Rightarrow> n))
          = (Inr [], snd (search_similar env (snd (get_collection_stats env w)) query
                 (Some (case k of None \<Rightarrow> TOP_K_RESULTS (cfg env) | Some n \<Rightarrow> n))))"
      by (metis prod.collapse)
    from summarize_news_nonzero [OF that(1) this] show ?thesis by simp
  qed
  from a b c show ?thesis by (simp add: no_data_def no_results_def)
qed

theorem summarize_news_no_data_witness:
  "stored fresh_world = None
   \<and> fst (summarize_news example_env fresh_world ''floods'' (Some 3) True) = Inr no_data
   \<and> st_document_count (fst (get_collection_stats (example_env\<lparr>ranking := no_match\<rparr>) indexed_world)) = 1
   \<and> fst (summarize_news (example_env\<lparr>ranking := no_match\<rparr>) indexed_world ''floods'' None True)
        = Inr no_results"
proof -
  have s: "stored fresh_world = None" by (simp add: fresh_world_def)
  have g: "get_collection_stats (example_env\<lparr>ranking := no_match\<rparr>) indexed_world =
     (\<lparr>st_collection_name = ''news_articles'', st_document_count = 1,
       st_embedding_model = Some ''all-MiniLM-L6-v2'', st_error = None\<rparr>, indexed_world)"
    by (simp add: get_collection_stats_def get_chroma_client_def get_collection_def
          collection_count_def entries_of_def indexed_world_def example_env_def quiet_def
          default_settings_def)
  have q: "fst (search_similar (example_env\<lparr>ranking := no_match\<rparr>) indexed_world ''floods''
                 (Some (TOP_K_RESULTS (cfg (example_env\<lparr>ranking := no_match\<rparr>))))) = Inr []"
    by (simp add: search_similar_def get_vector_store_def similarity_search_def entries_of_def
          indexed_world_def example_env_def quiet_def no_match_def)
  from summarize_news_no_data [of example_env fresh_world "''floods''" "Some 3" True] s
  have a: "fst (summarize_news example_env fresh_world ''floods'' (Some 3) True) = Inr no_data"
    by blast
  from summarize_news_no_data [of "example_env\<lparr>ranking := no_match\<rparr>" indexed_world "''floods''" None True] g q
  have b: "fst (summarize_news (example_env\<lparr>ranking := no_match\<rparr>) indexed_world ''floods'' None True)
        = Inr no_results"
    by simp
  from s a b g show ?thesis by simp
qed

text \<open>
  Claim C6, as the code has it.  \<open>search_similar\<close> asks for the vector store before its
  \<open>try\<close>.  Once it has the handle, cached or newly constructed, it returns the empty
  list without raising when the collection did not exist, when the handle's collection
  is gone, and when the similarity search raises.  The exceptions it propagates are
  exactly those of \<open>get_vector_store\<close>: loading the embedding model, opening the client
  or opening the collection failed while a handle was being constructed.
\<close>

theorem search_similar_degrades:
  "((fst (search_similar env w query k) = Inl ex) = (fst (get_vector_store env w) = Inl ex))
   \<and> (get_vector_store env w = (Inr h, w1)
        \<and> (stored w = None \<or> entries_of w1 h = None \<or> faults env SimilaritySearch \<noteq> None)
        \<longrightarrow> search_similar env w query k = (Inr [], w1))"
proof -
  have deg: "search_similar env w query k = (Inr [], w1)"
    if g: "get_vector_store env w = (Inr h, w1)"
      and c: "stored w = None \<or> entries_of w1 h = None \<or> faults env SimilaritySearch \<noteq> None"
  proof -
    let ?k = "case k of None \<Rightarrow> TOP_K_RESULTS (cfg env) | Some n \<Rightarrow> n"
    have "(\<exists>e. similarity_search env w1 h query ?k = Inl e)
          \<or> similarity_search env w1 h query ?k = Inr []"
    proof (cases "entries_of w1 h = None \<or> faults env SimilaritySearch \<noteq> None")
      case True
      then show ?thesis using similarity_search_fails by blast
    next
      case False
      with c have s: "stored w = None" by blast
      show ?thesis
      proof (cases "vector_store w")
        case None
        from get_vector_store_new [OF None g] s have "stored w1 = Some (h, [])" by simp
        then have "entries_of w1 h = Some []" by (simp add: entries_of_def)
        then show ?thesis by (rule similarity_search_empty)
      next
        case (Some h')
        with g s have "entries_of w1 h = None"
          by (simp add: get_vector_store_def entries_of_def)
        with False show ?thesis by simp
      qed
    qed
    with search_similar_via_handle [OF g, of query k] show ?thesis by auto
  qed
  from deg search_similar_raises [of env w query k ex] show ?thesis by blast
qed

theorem search_similar_degrades_witness:
  "get_vector_store (example_env\<lparr>faults := search_fails\<rparr>) indexed_world = (Inr 0, indexed_world)
   \<and> faults (example_env\<lparr>faults := search_fails\<rparr>) SimilaritySearch \<noteq> None
   \<and> search_similar (example_env\<lparr>faults := search_fails\<rparr>) indexed_world ''floods'' (Some 3)
        = (Inr [], indexed_world)"
proof -
  have g: "get_vector_store (example_env\<lparr>faults := search_fails\<rparr>) indexed_world = (Inr 0, indexed_world)"
    by (simp add: get_vector_store_def indexed_world_def)
  have f: "faults (example_env\<lparr>faults := search_fails\<rparr>) SimilaritySearch \<noteq> None"
    by (simp add: search_fails_def)
  from search_similar_degrades [of "example_env\<lparr>faults := search_fails\<rparr>" indexed_world "''floods''" "Some 3" _ 0 indexed_world] g f
  show ?thesis by blast
qed

theorem search_similar_degrades_counterexample:
  "stored fresh_world = None
   \<and> fst (search_similar (example_env\<lparr>faults := open_fails\<rparr>) fresh_world ''floods'' (Some 3))
        = Inl (External OpenClient ''unable to open database file'')"
  by (simp add: search_similar_def get_vector_store_def get_embedding_model_def
        get_chroma_client_def fresh_world_def example_env_def open_fails_def)

lemma extract_loop_length:
  "length acc \<le> length (extract_loop docs seen acc)"
proof (induction docs arbitrary: seen acc)
  case Nil
  then show ?case by simp
next
  case (Cons d docs)
  show ?case
  proof (cases "truthy (md_get d ''url'' (MStr [])) \<and> md_get d ''url'' (MStr []) \<notin> seen")
    case True
    let ?acc = "acc @ [\<lparr>src_title = md_get d ''title'' (MStr ''Untitled''),
                           src_source = md_get d ''source'' (MStr ''Unknown''),
                           src_url = md_get d ''url'' (MStr []),
                           src_date = md_get d ''published_date'' (MStr [])\<rparr>]"
    have "length acc \<le> length ?acc" by simp
    also have "\<dots> \<le> length (extract_loop docs (insert (md_get d ''url'' (MStr [])) seen) ?acc)"
      by (rule Cons.IH)
    also have "\<dots> = length (extract_loop (d # docs) seen acc)"
      using True by (simp add: Let_def)
    finally show ?thesis .
  next
    case False
    with Cons.IH [of acc seen] show ?thesis by (auto simp: Let_def)
  qed
qed

lemma extract_loop_empty:
  "(extract_loop docs seen acc = []) =
     (acc = [] \<and> (\<forall>d \<in> set docs. has_url d \<longrightarrow> md_get d ''url'' (MStr []) \<in> seen))"
proof (induction docs arbitrary: seen acc)
  case Nil
  then show ?case by simp
next
  case (Cons d docs)
  show ?case
  proof (cases "truthy (md_get d ''url'' (MStr [])) \<and> md_get d ''url'' (MStr []) \<notin> seen")
    case True
    let ?acc = "acc @ [\<lparr>src_title = md_get d ''title'' (MStr ''Untitled''),
                           src_source = md_get d ''source'' (MStr ''Unknown''),
                           src_url = md_get d ''url'' (MStr []),
                           src_date = md_get d ''published_date'' (MStr [])\<rparr>]"
    from extract_loop_length [of ?acc docs "insert (md_get d ''url'' (MStr [])) seen"]
    have "extract_loop docs (insert (md_get d ''url'' (MStr [])) seen) ?acc \<noteq> []"
      by auto
    with True show ?thesis by (auto simp: Let_def has_url_def)
  next
    case False
    with Cons.IH [of seen acc] show ?thesis by (auto simp: Let_def has_url_def)
  qed
qed

lemma extract_sources_empty:
  "(extract_sources docs = []) = (\<forall>d \<in> set docs. \<not> has_url d)"
  by (simp add: extract_sources_def extract_loop_empty)

text \<open>
  Claim C7, as the code has it.  When the index is not empty, the search returns a
  non-empty document list and \<open>check_ollama_available\<close> reports the generator
  unavailable, \<open>summarize_news\<close> returns status \<open>llm_unavailable\<close>, a summary that
  contains the assembled context verbatim, and the sources \<open>_extract_sources\<close> finds in
  the retrieved documents.  That source list is non-empty exactly when some retrieved
  document has a non-empty \<open>url\<close>.
\<close>

theorem summarize_news_llm_unavailable:
  assumes "st_document_count (fst (get_collection_stats env w)) \<noteq> 0"
    and "search_similar env (snd (get_collection_stats env w)) query
           (Some (case k of None \<Rightarrow> TOP_K_RESULTS (cfg env) | Some n \<Rightarrow> n)) = (Inr docs, w2)"
    and "docs \<noteq> []"
    and "check_ollama_available env = (False, ollama_status)"
  shows "summarize_news env w query k rs
           = (Inr (llm_unavailable ollama_status (format_documents docs) docs), w2)
         \<and> o_status (llm_unavailable ollama_status (format_documents docs) docs) = ''llm_unavailable''
         \<and> o_sources (llm_unavailable ollama_status (format_documents docs) docs)
             = Some (extract_sources docs)
         \<and> sublist (format_documents docs)
             (o_summary (llm_unavailable ollama_status (format_documents docs) docs))
         \<and> ((extract_sources docs \<noteq> []) = (\<exists>d \<in> set docs. has_url d))"
proof -
  from summarize_news_nonzero [OF assms(1,2), of rs] assms(3,4)
  have a: "summarize_news env w query k rs
           = (Inr (llm_unavailable ollama_status (format_documents docs) docs), w2)"
    by simp
  have b: "sublist (format_documents docs)
             (o_summary (llm_unavailable ollama_status (format_documents docs) docs))"
    unfolding llm_unavailable_def sublist_def
    by (rule exI [of _ "warning_sign @ '' LLM not available: '' @ ollama_status
                  @ ''\<newline>\<newline>Retrieved articles:\<newline>\<newline>''"], rule exI [of _ "[]"]) simp
  from a b extract_sources_empty [of docs] show ?thesis
    by (simp add: llm_unavailable_def)
qed

theorem summarize_news_llm_unavailable_witness:
  "fst (summarize_news example_env sourced_world ''rates'' None True)
     = Inr (llm_unavailable ''Ollama is not running. Start it with: ollama serve''
              (format_documents [example_doc ''Rates rise'' ''u1'' ''first''])
              [example_doc ''Rates rise'' ''u1'' ''first''])
   \<and> extract_sources [example_doc ''Rates rise'' ''u1'' ''first''] \<noteq> []"
proof -
  have g: "get_collection_stats example_env sourced_world =
     (\<lparr>st_collection_name = ''news_articles'', st_document_count = 1,
       st_embedding_model = Some ''all-MiniLM-L6-v2'', st_error = None\<rparr>, sourced_world)"
    by (simp add: get_collection_stats_def get_chroma_client_def get_collection_def
          collection_count_def entries_of_def sourced_world_def example_env_def quiet_def
          default_settings_def)
  have c: "st_document_count (fst (get_collection_stats example_env sourced_world)) \<noteq> 0"
    by (simp add: g)
  have "search_similar example_env sourced_world ''rates'' (Some (TOP_K_RESULTS (cfg example_env)))
           = (Inr [example_doc ''Rates rise'' ''u1'' ''first''], sourced_world)"
    by (simp add: search_similar_def get_vector_store_def similarity_search_def entries_of_def
          sourced_world_def example_env_def quiet_def default_settings_def)
  then have q: "search_similar example_env (snd (get_collection_stats example_env sourced_world)) ''rates''
             (Some (case None of None \<Rightarrow> TOP_K_RESULTS (cfg example_env) | Some n \<Rightarrow> n))
           = (Inr [example_doc ''Rates rise'' ''u1'' ''first''], sourced_world)"
    by (simp only: g snd_conv option.case)
  have n: "[example_doc ''Rates rise'' ''u1'' ''first''] \<noteq> []" by simp
  have o: "check_ollama_available example_env
             = (False, ''Ollama is not running. Start it with: ollama serve'')"
    by (simp add: check_ollama_available_def example_env_def)
  have u: "\<exists>d \<in> set [example_doc ''Rates rise'' ''u1'' ''first'']. has_url d"
    by (simp add: has_url_def md_get_def example_doc_def)
  from summarize_news_llm_unavailable [OF c q n o, of True] u
  show ?thesis by simp
qed

theorem summarize_news_llm_unavailable_counterexample:
  "fst (search_similar example_env indexed_world ''floods'' None)
     = Inr [\<lparr>page_content = ''text'', metadata = [(''title'', MStr ''Floods'')]\<rparr>]
   \<and> \<not> fst (check_ollama_available example_env)
   \<and> fst (summarize_news example_env indexed_world ''floods'' None True)
     = Inr \<lparr>o_summary = warning_sign
                @ '' LLM not available: Ollama is not running. Start it with: ollama serve''
                @ ''\<newline>\<newline>Retrieved articles:\<newline>\<newline>''
                @ format_documents [\<lparr>page_content = ''text'', metadata = [(''title'', MStr ''Floods'')]\<rparr>],
            o_sources = Some [],
            o_status = ''llm_unavailable''\<rparr>"
  by (simp add: summarize_news_def get_collection_stats_def get_chroma_client_def
        get_collection_def collection_count_def entries_of_def search_similar_def
        get_vector_store_def similarity_search_def check_ollama_available_def
        llm_unavailable_def extract_sources_def md_get_def Let_def
        indexed_world_def example_env_def quiet_def default_settings_def)

section \<open>Building documents\<close>

lemma chunk_documents_text:
  "map page_content (chunk_documents md chunks) = chunks"
proof -
  have "page_content \<circ> (\<lambda>(i, chunk). \<lparr>page_content = chunk,
            metadata = md @ [(''chunk_index'', MInt (int i))]\<rparr>) = snd"
    by (rule ext) (simp add: case_prod_beta)
  then have "map page_content (chunk_documents md chunks) = map snd (enumerate 0 chunks)"
    by (simp add: chunk_documents_def)
  then show ?thesis by (simp add: enumerate_eq_zip)
qed

text \<open>
  Claim C3, as the code has it.  For every article the text that is chunked is
  \<open>"Title: "\<close>, the title, an empty line and the content, also when the title is empty
  (the text is never the body alone).  The content of an article that \<open>fetch_feed\<close>
  builds is the content extracted from the entry, or the entry's summary whenever that
  content is empty.
\<close>

theorem document_builder_text:
  "map page_content (articles_to_documents env [a])
     = get_text_splitter env (''Title: '' @ a_title a @ ''\<newline>\<newline>'' @ a_content a)
   \<and> (entry_article env source_name e = Inr b \<longrightarrow>
        a_content b =
          (if extract_content e \<noteq> [] then extract_content e
           else (case e_summary e of Some s \<Rightarrow> s | None \<Rightarrow> [])))"
proof -
  have "map page_content (articles_to_documents env [a])
     = get_text_splitter env (''Title: '' @ a_title a @ ''\<newline>\<newline>'' @ a_content a)"
    by (simp add: chunk_documents_text full_text_def)
  moreover have "a_content b =
          (if extract_content e \<noteq> [] then extract_content e
           else (case e_summary e of Some s \<Rightarrow> s | None \<Rightarrow> []))"
    if "entry_article env source_name e = Inr b"
    using that
    by (auto simp: entry_article_def entry_summary_def Let_def split: option.splits)
  ultimately show ?thesis by blast
qed

theorem document_builder_text_witness:
  "entry_article example_env ''Feed'' summary_only_entry = Inr summary_article
   \<and> extract_content summary_only_entry = []
   \<and> a_content summary_article = ''Summary.''
   \<and> map page_content (articles_to_documents example_env [untitled_article])
       = [''Title: \<newline>\<newline>Body text.'']"
proof -
  have e: "entry_article example_env ''Feed'' summary_only_entry = Inr summary_article"
    by (simp add: entry_article_def extract_content_def entry_summary_def parse_rss_date_def
          generate_article_id_def summary_only_entry_def summary_article_def example_env_def
          Let_def)
  have x: "extract_content summary_only_entry = []"
    by (simp add: extract_content_def summary_only_entry_def)
  have s: "get_text_splitter example_env t = [t]" for t
    by (simp add: get_text_splitter_def example_env_def)
  note t = document_builder_text
             [of example_env untitled_article "''Feed''" summary_only_entry summary_article]
  from t e x have c: "a_content summary_article = ''Summary.''"
    by (simp add: summary_only_entry_def)
  from t have "map page_content (articles_to_documents example_env [untitled_article])
       = [''Title: \<newline>\<newline>Body text.'']"
    by (simp add: s untitled_article_def)
  with e x c show ?thesis by blast
qed

theorem document_builder_text_counterexample:
  "a_title untitled_article = []
   \<and> map page_content (articles_to_documents example_env [untitled_article])
       = [''Title: \<newline>\<newline>Body text.'']
   \<and> full_text untitled_article \<noteq> a_content untitled_article"
  by (simp add: chunk_documents_def full_text_def get_text_splitter_def enumerate_eq_zip
        untitled_article_def example_env_def)

section \<open>Indexing\<close>


















end
